theory Spec2Isabelle
  imports Main "HOL-Library.AList"
begin

section \<open>Values of the host language\<close>

text \<open>
  The action manager handles JSON-like Python values: task parameters, contexts,
  expression trees and action results. A dict is an association list, in insertion order.
  \<open>PNone\<close> is Python's \<open>None\<close>.
\<close>

datatype pyval =
    PNone
  | PBool bool
  | PInt int
  | PStr string
  | PList "pyval list"
  | PDict "(string \<times> pyval) list"

type_synonym pydict = "(string \<times> pyval) list"

text \<open>Python truthiness, as tested by \<open>if x:\<close>, \<open>if not x:\<close> and \<open>x or y\<close>.\<close>

fun truthy :: "pyval \<Rightarrow> bool" where
  "truthy PNone = False"
| "truthy (PBool b) = b"
| "truthy (PInt i) = (i \<noteq> 0)"
| "truthy (PStr s) = (s \<noteq> [])"
| "truthy (PList vs) = (vs \<noteq> [])"
| "truthy (PDict kvs) = (kvs \<noteq> [])"

text \<open>\<open>d.get(k)\<close>: the value stored under \<open>k\<close>, \<open>None\<close> when the key is missing.\<close>

definition dict_get :: "pydict \<Rightarrow> string \<Rightarrow> pyval" where
  "dict_get d k = (case map_of d k of None \<Rightarrow> PNone | Some v \<Rightarrow> v)"

section \<open>Exceptions\<close>

text \<open>
  The module raises one exception class of its own, \<open>exc.ActionException(msg)\<close>, at five
  places; the message tells them apart, and \<open>action_msg\<close> has one constructor for each
  message format, holding the values the format string is filled with:
  \<^item> \<open>Unknown_action workbook_name action\<close>:
    \<^verbatim>\<open>'Unknown action [workbook_name=%s, action=%s]'\<close> (\<open>create_action\<close>);
  \<^item> \<open>Adhoc_base_not_registered_task workbook_name action\<close>:
    \<^verbatim>\<open>'Ad-hoc action base class is not registered [workbook_name=%s, action=%s, base_class=%s]'\<close>
    (\<open>_create_adhoc_action\<close>; \<open>base_class\<close> is always \<open>None\<close> there);
  \<^item> \<open>Adhoc_base_not_registered action\<close>: the same text with \<open>workbook=%s\<close>
    (\<open>resolve_adhoc_action_name\<close>);
  \<^item> \<open>Adhoc_class_not_registered action\<close>:
    \<^verbatim>\<open>'Ad-hoc action class is not registered [workbook=%s, action=%s, action_spec=%s]'\<close>;
  \<^item> \<open>Failed_to_create cause\<close>: \<^verbatim>\<open>'Failed to create action [db_task=%s]: %s'\<close>.
  The other constructors of \<open>error\<close> are the exceptions of the interpreter and of the
  collaborators that can pass through the module.
\<close>

datatype action_msg =
    Unknown_action string string
  | Adhoc_base_not_registered_task string string
  | Adhoc_base_not_registered string
  | Adhoc_class_not_registered string
  | Failed_to_create string

datatype error =
    ActionException action_msg
  | DBDuplicateEntry
  | TypeError
  | AttributeError
  | KeyError
  | CollaboratorError string

section \<open>Ad-hoc action specifications\<close>

text \<open>
  The parsed ad-hoc action spec of a workbook: \<open>clazz\<close> names the base action,
  \<open>base_parameters\<close> and \<open>output_tree\<close> (the attribute \<open>output\<close>) are expression trees (\<open>PNone\<close> when the
  workbook does not give them). \<open>workbook.get_action(name)\<close> returns the spec or \<open>None\<close>.
\<close>

record adhoc_action_spec =
  clazz :: string
  base_parameters :: pyval
  output_tree :: pyval

type_synonym workbook = "(string \<times> adhoc_action_spec) list"

definition get_action :: "workbook \<Rightarrow> string \<Rightarrow> adhoc_action_spec option" where
  "get_action wb n = map_of wb n"

text \<open>
  Modelled from the spec: \<open>expr.evaluate_recursively\<close> (module \<open>mistral.expressions\<close>)
  is the Expression Evaluator, "total over any JSON-like tree", that evaluates "every
  expression-bearing leaf" of a tree in a context. The expression language is opaque: the
  evaluation of one string leaf is the parameter \<open>leaf\<close>.
\<close>

fun evaluate_recursively :: "(string \<Rightarrow> pyval \<Rightarrow> pyval) \<Rightarrow> pyval \<Rightarrow> pyval \<Rightarrow> pyval"
  and evaluate_items :: "(string \<Rightarrow> pyval \<Rightarrow> pyval) \<Rightarrow> pyval list \<Rightarrow> pyval \<Rightarrow> pyval list"
  and evaluate_entries :: "(string \<Rightarrow> pyval \<Rightarrow> pyval) \<Rightarrow> pydict \<Rightarrow> pyval \<Rightarrow> pydict" where
  "evaluate_recursively leaf (PStr s) ctx = leaf s ctx"
| "evaluate_recursively leaf (PList vs) ctx = PList (evaluate_items leaf vs ctx)"
| "evaluate_recursively leaf (PDict kvs) ctx = PDict (evaluate_entries leaf kvs ctx)"
| "evaluate_recursively leaf PNone ctx = PNone"
| "evaluate_recursively leaf (PBool b) ctx = PBool b"
| "evaluate_recursively leaf (PInt i) ctx = PInt i"
| "evaluate_items leaf [] ctx = []"
| "evaluate_items leaf (v # vs) ctx = evaluate_recursively leaf v ctx # evaluate_items leaf vs ctx"
| "evaluate_entries leaf [] ctx = []"
| "evaluate_entries leaf ((k, v) # kvs) ctx =
     (k, evaluate_recursively leaf v ctx) # evaluate_entries leaf kvs ctx"

text \<open>A leaf evaluator for strings that hold no expression: the string is the value.\<close>

definition plain_leaf :: "string \<Rightarrow> pyval \<Rightarrow> pyval" where
  "plain_leaf s ctx = PStr s"

text \<open>
  \<open>convert_adhoc_action_params(workbook, action_name, params)\<close>. The evaluator is the
  parameter \<open>ev\<close>. Reading \<open>.base_parameters\<close> of \<open>None\<close> raises AttributeError.
\<close>

definition convert_adhoc_action_params ::
  "(pyval \<Rightarrow> pyval \<Rightarrow> pyval) \<Rightarrow> workbook \<Rightarrow> string \<Rightarrow> pyval \<Rightarrow> error + pyval" where
  "convert_adhoc_action_params ev wb action_name params =
     (case get_action wb action_name of
        None \<Rightarrow> Inl AttributeError
      | Some sp \<Rightarrow>
          let base_params = base_parameters sp in
          if \<not> truthy base_params then Inr (PDict [])
          else Inr (ev base_params params))"

text \<open>\<open>convert_adhoc_action_result(workbook, action_name, result)\<close>.\<close>

definition convert_adhoc_action_result ::
  "(pyval \<Rightarrow> pyval \<Rightarrow> pyval) \<Rightarrow> workbook \<Rightarrow> string \<Rightarrow> pyval \<Rightarrow> error + pyval" where
  "convert_adhoc_action_result ev wb action_name result =
     (case get_action wb action_name of
        None \<Rightarrow> Inl AttributeError
      | Some sp \<Rightarrow>
          let transformer = output_tree sp in
          if \<not> truthy transformer then Inr result
          else Inr (ev transformer result))"

section \<open>The action registry\<close>

text \<open>
  The persisted action record, with the columns \<open>_register_action_in_db\<close> fills. The
  registry is the list of the stored records.
\<close>

record action_db =
  name :: string
  action_class :: string
  attributes :: pydict
  description :: "string option"
  is_system :: bool

type_synonym db = "action_db list"

text \<open>
  Modelled from the spec: the persistence layer \<open>mistral.db.v2.api\<close> is not part of the
  module. The spec gives it as \<open>create(record) -> record | DuplicateKeyError\<close> with
  \<open>name\<close> globally unique, \<open>get(name) -> record | NotFound\<close>, \<open>delete(filter)\<close> and
  \<open>transaction() -> scoped unit of work\<close>. An operation called outside a transaction
  takes effect at once; a transaction whose body raises restores the registry it started
  from and passes the exception on.
\<close>

definition db_api_create_action :: "action_db \<Rightarrow> db \<Rightarrow> (error + unit) \<times> db" where
  "db_api_create_action vals d =
     (if name vals \<in> set (map name d) then (Inl DBDuplicateEntry, d)
      else (Inr (), d @ [vals]))"

definition db_api_delete_actions :: "bool \<Rightarrow> db \<Rightarrow> db" where
  "db_api_delete_actions sys d = filter (\<lambda>a. is_system a \<noteq> sys) d"

definition db_api_load_action :: "string \<Rightarrow> db \<Rightarrow> action_db option" where
  "db_api_load_action n d = find (\<lambda>a. name a = n) d"

definition db_api_transaction ::
  "(db \<Rightarrow> (error + 'a) \<times> db) \<Rightarrow> db \<Rightarrow> (error + 'a) \<times> db" where
  "db_api_transaction body d =
     (case body d of
        (Inl e, d') \<Rightarrow> (Inl e, d)
      | (Inr v, d') \<Rightarrow> (Inr v, d'))"

text \<open>The system actions of a registry, as a set.\<close>

definition system_actions :: "db \<Rightarrow> action_db set" where
  "system_actions d = set (filter is_system d)"

section \<open>Discovery\<close>

text \<open>
  What the collaborators of a sync return. An \<open>extension\<close> is one entry of the stevedore
  \<open>ExtensionManager\<close> of the namespace \<open>mistral.actions\<close>; \<open>plugin_fields\<close> is what
  \<open>i_utils.get_public_fields\<close> returns for its plugin, or the exception it raises.
  \<open>mgr.names()\<close> lists the names, \<open>mgr[name]\<close> is the entry stored last under the name.
  A \<open>generator\<close> is one element of \<open>generator_factory.all_generators()\<close>;
  \<open>create_action_classes\<close> is the result of that call, the items of the returned dict,
  each with what \<open>get_public_fields\<close> returns for the class, or the exception raised.
\<close>

record extension =
  ext_name :: string
  entry_point_target :: string
  plugin_fields :: "error + pydict"

record generator =
  action_namespace :: string
  base_action_class_module :: string
  base_action_class_name :: string
  create_action_classes :: "error + (string \<times> (error + pydict)) list"

record discovery =
  extension_manager :: "error + extension list"
  all_generators :: "generator list"

definition mgr_names :: "extension list \<Rightarrow> string list" where
  "mgr_names mgr = map ext_name mgr"

definition mgr_getitem :: "extension list \<Rightarrow> string \<Rightarrow> extension option" where
  "mgr_getitem mgr n = find (\<lambda>e. ext_name e = n) (rev mgr)"

section \<open>Sync\<close>

text \<open>
  The functions of \<open>mistral/services/action_manager.py\<close>, under their names (without the
  leading underscore of the private ones). Each takes the registry and returns the
  value or the exception together with the registry after the call.

  \<open>_register_action_in_db(name, action_class, attributes, description=None)\<close>: the insert
  is tried; \<open>DBDuplicateEntry\<close> is caught, every other exception passes.
\<close>

definition register_action_in_db ::
  "string \<Rightarrow> string \<Rightarrow> pydict \<Rightarrow> string option \<Rightarrow> db \<Rightarrow> (error + unit) \<times> db" where
  "register_action_in_db n action_cls attrs descr d =
     (let vals = \<lparr>name = n, action_class = action_cls, attributes = attrs,
                  description = descr, is_system = True\<rparr>
      in case db_api_create_action vals d of
           (Inl e, d') \<Rightarrow> if e = DBDuplicateEntry then (Inr (), d') else (Inl e, d')
         | (Inr u, d') \<Rightarrow> (Inr (), d'))"

definition clear_system_action_db :: "db \<Rightarrow> db" where
  "clear_system_action_db d = db_api_delete_actions True d"

text \<open>The inner loop of \<open>_register_dynamic_action_classes\<close>, over the classes of one generator.\<close>

fun register_generated ::
  "generator \<Rightarrow> string \<Rightarrow> (string \<times> (error + pydict)) list \<Rightarrow> db \<Rightarrow> (error + unit) \<times> db" where
  "register_generated g action_class_str [] d = (Inr (), d)"
| "register_generated g action_class_str ((action_name, pub) # rest) d =
     (let full_action_name = action_namespace g @ ''.'' @ action_name
      in case pub of
           Inl e \<Rightarrow> (Inl e, d)
         | Inr attrs \<Rightarrow>
             (case register_action_in_db full_action_name action_class_str attrs None d of
                (Inl e, d') \<Rightarrow> (Inl e, d')
              | (Inr u, d') \<Rightarrow> register_generated g action_class_str rest d'))"

fun register_dynamic_action_classes :: "generator list \<Rightarrow> db \<Rightarrow> (error + unit) \<times> db" where
  "register_dynamic_action_classes [] d = (Inr (), d)"
| "register_dynamic_action_classes (g # gs) d =
     (case create_action_classes g of
        Inl e \<Rightarrow> (Inl e, d)
      | Inr action_classes \<Rightarrow>
          (let action_class_str = base_action_class_module g @ ''.'' @ base_action_class_name g
           in case register_generated g action_class_str action_classes d of
                (Inl e, d') \<Rightarrow> (Inl e, d')
              | (Inr u, d') \<Rightarrow> register_dynamic_action_classes gs d'))"

text \<open>The loop \<open>for name in mgr.names()\<close> of \<open>register_action_classes\<close>.\<close>

fun register_extensions :: "extension list \<Rightarrow> string list \<Rightarrow> db \<Rightarrow> (error + unit) \<times> db" where
  "register_extensions mgr [] d = (Inr (), d)"
| "register_extensions mgr (n # ns) d =
     (case mgr_getitem mgr n of
        None \<Rightarrow> (Inl KeyError, d)
      | Some ext \<Rightarrow>
          (let action_class_str =
                 map (\<lambda>c. if c = CHR '':'' then CHR ''.'' else c) (entry_point_target ext)
           in case plugin_fields ext of
                Inl e \<Rightarrow> (Inl e, d)
              | Inr attrs \<Rightarrow>
                  (case register_action_in_db n action_class_str attrs None d of
                     (Inl e, d') \<Rightarrow> (Inl e, d')
                   | (Inr u, d') \<Rightarrow> register_extensions mgr ns d')))"

text \<open>
  The full names under which \<open>_register_dynamic_action_classes\<close> registers the classes
  of a generator: \<open>"%s.%s" % (generator.action_namespace, action_name)\<close> for each item
  of \<open>create_action_classes()\<close>.
\<close>

definition produced_names :: "generator \<Rightarrow> string list" where
  "produced_names g =
     (case create_action_classes g of
        Inl e \<Rightarrow> []
      | Inr action_classes \<Rightarrow>
          map (\<lambda>kf. action_namespace g @ ''.'' @ fst kf) action_classes)"

text \<open>
  \<open>register_action_classes()\<close>: the extension manager is built first, then both loops
  run inside \<open>with db_api.transaction()\<close>.
\<close>

definition register_action_classes :: "discovery \<Rightarrow> db \<Rightarrow> (error + unit) \<times> db" where
  "register_action_classes disc d =
     (case extension_manager disc of
        Inl e \<Rightarrow> (Inl e, d)
      | Inr mgr \<Rightarrow>
          db_api_transaction
            (\<lambda>d0. case register_extensions mgr (mgr_names mgr) d0 of
                     (Inl e, d') \<Rightarrow> (Inl e, d')
                   | (Inr u, d') \<Rightarrow> register_dynamic_action_classes (all_generators disc) d')
            d)"

text \<open>\<open>sync_db()\<close>: the system records are deleted, then the classes are registered.\<close>

definition sync_db :: "discovery \<Rightarrow> db \<Rightarrow> (error + unit) \<times> db" where
  "sync_db disc d = register_action_classes disc (clear_system_action_db d)"

section \<open>Resolution and the action factory\<close>

text \<open>
  An action class as the module sees it: \<open>init_argspec\<close> is the field \<open>args\<close> of
  \<open>inspect.getargspec(cls.__init__)\<close>, or the exception that call raises;
  \<open>init_raises kwargs\<close> tells whether \<open>cls(**kwargs)\<close> raises, and with which text.
  The classes come from \<open>action_factory.construct_action_class\<close>, a collaborator, which
  builds one from the class string and the attributes of a record.
  \<open>none_init_argspec\<close> is what \<open>inspect.getargspec(None.__init__)\<close> gives: the module can
  ask for it, and the answer is the interpreter's (Python 2 raises \<open>TypeError\<close>, since
  \<open>None.__init__\<close> is not a Python function).

  The spec parser is a collaborator too. \<open>spec_parser.get_task_spec\<close> and
  \<open>spec_parser.get_action_spec\<close> are given the task's own raw dicts and may write to
  them; each is a function from the raw dict to the parsed spec and the raw dict as the
  call leaves it. Of a parsed task spec only \<open>get_full_action_name()\<close> is used.
\<close>

record pycls =
  cls_ref :: string
  cls_attributes :: pydict
  init_argspec :: "error + string list"
  init_raises :: "pydict \<Rightarrow> string option"

record task_spec =
  get_full_action_name :: string

record runtime =
  construct_action_class :: "string \<Rightarrow> pydict \<Rightarrow> pycls"
  none_init_argspec :: "error + string list"
  get_task_spec :: "pydict \<Rightarrow> task_spec \<times> pydict"
  get_action_spec :: "pydict \<Rightarrow> adhoc_action_spec \<times> pydict"

text \<open>
  The task record \<open>db_task\<close>, with the keys the module reads. \<open>task_spec\<close> is the raw
  task spec, a dict; \<open>action_spec\<close> is the raw ad-hoc spec, a dict or \<open>None\<close>;
  \<open>parameters\<close> is a dict or \<open>None\<close> (the module writes
  \<open>db_task['parameters'] or {}\<close>); \<open>in_context\<close> is a dict.
\<close>

record db_task =
  task_id :: string
  task_name :: string
  workbook_name :: string
  execution_id :: string
  tags :: pyval
  task_spec :: pydict
  action_spec :: "pydict option"
  parameters :: "pydict option"
  in_context :: pydict

text \<open>
  The instances the factory returns: \<open>Action cls kwargs\<close> is \<open>cls(**kwargs)\<close>,
  \<open>AdHocAction action_context base_cls action_spec params\<close> is the call of
  \<open>std_actions.AdHocAction\<close> with these arguments.
\<close>

datatype action =
    Action pycls pydict
  | AdHocAction pyval pycls adhoc_action_spec pydict

text \<open>What \<open>create_action\<close> can touch: the registry and the task record it is given.\<close>

record state =
  registry :: db
  task :: db_task

definition ACTION_CTX_PARAM :: string where
  "ACTION_CTX_PARAM = ''action_context''"

definition get_action_db :: "string \<Rightarrow> db \<Rightarrow> action_db option" where
  "get_action_db action_name d = db_api_load_action action_name d"

definition get_action_class :: "runtime \<Rightarrow> db \<Rightarrow> string \<Rightarrow> pycls option" where
  "get_action_class rt d action_full_name =
     (case get_action_db action_full_name d of
        None \<Rightarrow> None
      | Some a \<Rightarrow> Some (construct_action_class rt (action_class a) (attributes a)))"

definition get_action_context :: "db_task \<Rightarrow> pyval \<Rightarrow> pydict" where
  "get_action_context t openstack_context =
     (let result = [(''workbook_name'', PStr (workbook_name t)),
                    (''execution_id'', PStr (execution_id t)),
                    (''task_id'', PStr (task_id t)),
                    (''task_name'', PStr (task_name t)),
                    (''task_tags'', tags t)]
      in if truthy openstack_context
         then AList.update ''openstack'' openstack_context result
         else result)"

definition has_action_context_param :: "runtime \<Rightarrow> pycls option \<Rightarrow> error + bool" where
  "has_action_context_param rt action_cls =
     (case (case action_cls of None \<Rightarrow> none_init_argspec rt | Some c \<Rightarrow> init_argspec c) of
        Inl e \<Rightarrow> Inl e
      | Inr args \<Rightarrow> Inr (ACTION_CTX_PARAM \<in> set args))"

text \<open>\<open>x or {}\<close> for \<open>x = db_task['parameters']\<close>.\<close>

definition params_or_empty :: "pydict option \<Rightarrow> pydict" where
  "params_or_empty ps = (case ps of None \<Rightarrow> [] | Some p \<Rightarrow> p)"

text \<open>
  \<open>_create_adhoc_action(db_task, openstack_context)\<close>, with the task as the call leaves
  it. The task spec is parsed first; the function returns \<open>None\<close> when the raw ad-hoc
  spec is falsy (\<open>None\<close> or the empty dict), and parses it otherwise. The context
  parameter of the base class is looked for before the test that the base class was
  found.
\<close>

definition create_adhoc_action ::
  "runtime \<Rightarrow> db \<Rightarrow> db_task \<Rightarrow> pyval \<Rightarrow> (error + action option) \<times> db_task" where
  "create_adhoc_action rt d t openstack_context =
     (let parsed = get_task_spec rt (task_spec t);
          t1 = t\<lparr>task_spec := snd parsed\<rparr>;
          full_action_name = get_full_action_name (fst parsed)
      in case action_spec t1 of
           None \<Rightarrow> (Inr None, t1)
         | Some raw_action_spec \<Rightarrow>
             if raw_action_spec = [] then (Inr None, t1)
             else
               (let parsed_spec = get_action_spec rt raw_action_spec;
                    t2 = t1\<lparr>action_spec := Some (snd parsed_spec)\<rparr>;
                    sp = fst parsed_spec;
                    base_cls = get_action_class rt d (clazz sp)
                in case has_action_context_param rt base_cls of
                     Inl e \<Rightarrow> (Inl e, t2)
                   | Inr accepts \<Rightarrow>
                       (let action_context =
                              (if accepts then PDict (get_action_context t2 openstack_context)
                               else PNone)
                        in case base_cls of
                             None \<Rightarrow>
                               (Inl (ActionException
                                       (Adhoc_base_not_registered_task (workbook_name t2)
                                          full_action_name)), t2)
                           | Some c \<Rightarrow>
                               (Inr (Some (AdHocAction action_context c sp
                                             (params_or_empty (parameters t2)))), t2))))"

text \<open>
  The last statement of \<open>create_action\<close>: \<open>action_cls(**action_params)\<close> inside
  \<open>try\<close>, every exception turned into an \<open>ActionException\<close>.
\<close>

definition instantiate :: "pycls \<Rightarrow> pydict \<Rightarrow> error + action" where
  "instantiate c action_params =
     (case init_raises c action_params of
        Some e \<Rightarrow> Inl (ActionException (Failed_to_create e))
      | None \<Rightarrow> Inr (Action c action_params))"

text \<open>
  \<open>create_action(db_task)\<close>. It returns the action or the exception, with the state
  after the call: the raw task spec is as the parser leaves it, the task's
  \<open>parameters\<close> dict is updated in place on the ad-hoc path, and \<open>action_params\<close> is
  that same dict when it is not empty, so that storing the context in \<open>action_params\<close>
  stores it in the task.
\<close>

definition create_action :: "runtime \<Rightarrow> state \<Rightarrow> (error + action) \<times> state" where
  "create_action rt s =
     (let parsed = get_task_spec rt (task_spec (task s));
          t = (task s)\<lparr>task_spec := snd parsed\<rparr>;
          full_action_name = get_full_action_name (fst parsed);
          action_cls = get_action_class rt (registry s) full_action_name;
          openstack_ctx = dict_get (in_context t) ''openstack''
      in case action_cls of
           None \<Rightarrow>
             (case (if openstack_ctx \<noteq> PNone
                    then (case parameters t of
                            None \<Rightarrow> Inl AttributeError
                          | Some p \<Rightarrow>
                              Inr (t\<lparr>parameters :=
                                        Some (AList.update ''openstack'' openstack_ctx p)\<rparr>))
                    else Inr t) of
                Inl e \<Rightarrow> (Inl e, s\<lparr>task := t\<rparr>)
              | Inr t' \<Rightarrow>
                  (let made = create_adhoc_action rt (registry s) t' openstack_ctx;
                       s' = s\<lparr>task := snd made\<rparr>
                   in case fst made of
                        Inl e \<Rightarrow> (Inl e, s')
                      | Inr (Some a) \<Rightarrow> (Inr a, s')
                      | Inr None \<Rightarrow>
                          (Inl (ActionException
                                  (Unknown_action (workbook_name (snd made))
                                     full_action_name)),
                           s')))
         | Some c \<Rightarrow>
             (let action_params = params_or_empty (parameters t)
              in case has_action_context_param rt (Some c) of
                   Inl e \<Rightarrow> (Inl e, s\<lparr>task := t\<rparr>)
                 | Inr accepts \<Rightarrow>
                     (let action_params' =
                            (if accepts
                             then AList.update ACTION_CTX_PARAM
                                    (PDict (get_action_context t openstack_ctx)) action_params
                             else action_params);
                          t' = (if accepts \<and> action_params \<noteq> []
                                then t\<lparr>parameters := Some action_params'\<rparr>
                                else t)
                      in (instantiate c action_params', s\<lparr>task := t'\<rparr>))))"

text \<open>\<open>resolve_adhoc_action_name(workbook, action_name)\<close>.\<close>

definition resolve_adhoc_action_name ::
  "runtime \<Rightarrow> db \<Rightarrow> workbook \<Rightarrow> string \<Rightarrow> error + string" where
  "resolve_adhoc_action_name rt d wb action_name =
     (case get_action wb action_name of
        None \<Rightarrow> Inl (ActionException (Adhoc_class_not_registered action_name))
      | Some sp \<Rightarrow>
          (case get_action_class rt d (clazz sp) of
             None \<Rightarrow> Inl (ActionException (Adhoc_base_not_registered action_name))
           | Some c \<Rightarrow> Inr (clazz sp)))"

section \<open>Sample data\<close>

text \<open>
  A small deployment used to run the definitions: a registry with the system action
  \<open>std.echo\<close>, the context-aware system action \<open>std.mistral_http\<close> and a user action
  that took the name \<open>std.http\<close>; two installed extensions and one generator.
\<close>

definition echo_record :: action_db where
  "echo_record = \<lparr>name = ''std.echo'', action_class = ''mistral.actions.std_actions.EchoAction'',
     attributes = [(''output'', PNone)], description = None, is_system = True\<rparr>"

definition mistral_http_record :: action_db where
  "mistral_http_record = \<lparr>name = ''std.mistral_http'',
     action_class = ''mistral.actions.std_actions.MistralHTTPAction'',
     attributes = [(''url'', PNone)], description = None, is_system = True\<rparr>"

definition user_record :: action_db where
  "user_record = \<lparr>name = ''std.http'', action_class = ''my.module.MyHTTP'',
     attributes = [], description = Some ''user action'', is_system = False\<rparr>"

definition db_demo :: db where
  "db_demo = [echo_record, mistral_http_record, user_record]"

text \<open>A registry where a user action also took the name of a generated class.\<close>

definition nova_user_record :: action_db where
  "nova_user_record = \<lparr>name = ''nova.servers_list'', action_class = ''my.module.MyList'',
     attributes = [], description = Some ''user action'', is_system = False\<rparr>"

definition db_dup :: db where
  "db_dup = [echo_record, user_record, nova_user_record]"

definition echo_extension :: extension where
  "echo_extension = \<lparr>ext_name = ''std.echo'',
     entry_point_target = ''mistral.actions.std_actions:EchoAction'',
     plugin_fields = Inr [(''output'', PNone)]\<rparr>"

definition http_extension :: extension where
  "http_extension = \<lparr>ext_name = ''std.http'',
     entry_point_target = ''mistral.actions.std_actions:HTTPAction'',
     plugin_fields = Inr [(''url'', PNone)]\<rparr>"

definition nova_generator :: generator where
  "nova_generator = \<lparr>action_namespace = ''nova'',
     base_action_class_module = ''mistral.actions.openstack.actions'',
     base_action_class_name = ''NovaAction'',
     create_action_classes = Inr [(''servers_list'', Inr []), (''servers_get'', Inr [])]\<rparr>"

definition broken_generator :: generator where
  "broken_generator = \<lparr>action_namespace = ''nova'',
     base_action_class_module = ''mistral.actions.openstack.actions'',
     base_action_class_name = ''NovaAction'',
     create_action_classes = Inl (CollaboratorError ''ImportError'')\<rparr>"

definition disc_demo :: discovery where
  "disc_demo = \<lparr>extension_manager = Inr [echo_extension, http_extension],
     all_generators = [nova_generator]\<rparr>"

definition disc_broken :: discovery where
  "disc_broken = \<lparr>extension_manager = Inr [echo_extension, http_extension],
     all_generators = [broken_generator]\<rparr>"

text \<open>
  The classes of the sample deployment: \<open>MistralHTTPAction\<close> takes the context
  parameter, the other classes take their attributes; no constructor raises. The
  interpreter is Python 2, where \<open>inspect.getargspec(None.__init__)\<close> raises
  \<open>TypeError\<close>. The sample task parser reads the action name under \<open>action\<close> and
  writes an empty \<open>requires\<close> into a raw spec that has none; the sample ad-hoc parser
  reads \<open>class\<close>, \<open>base-parameters\<close> and \<open>output\<close> and writes nothing.
\<close>

definition never_raises :: "pydict \<Rightarrow> string option" where
  "never_raises kwargs = None"

definition construct_demo :: "string \<Rightarrow> pydict \<Rightarrow> pycls" where
  "construct_demo ref attrs =
     \<lparr>cls_ref = ref, cls_attributes = attrs,
      init_argspec =
        Inr (if ref = ''mistral.actions.std_actions.MistralHTTPAction''
             then [''self'', ''action_context'', ''url'']
             else ''self'' # map fst attrs),
      init_raises = never_raises\<rparr>"

definition parse_task_demo :: "pydict \<Rightarrow> task_spec \<times> pydict" where
  "parse_task_demo raw =
     (\<lparr>get_full_action_name = (case dict_get raw ''action'' of PStr a \<Rightarrow> a | _ \<Rightarrow> [])\<rparr>,
      (if map_of raw ''requires'' = None then AList.update ''requires'' (PDict []) raw
       else raw))"

definition parse_action_demo :: "pydict \<Rightarrow> adhoc_action_spec \<times> pydict" where
  "parse_action_demo raw =
     (\<lparr>clazz = (case dict_get raw ''class'' of PStr a \<Rightarrow> a | _ \<Rightarrow> []),
       base_parameters = dict_get raw ''base-parameters'',
       output_tree = dict_get raw ''output''\<rparr>,
      raw)"

definition rt_py2 :: runtime where
  "rt_py2 = \<lparr>construct_action_class = construct_demo, none_init_argspec = Inl TypeError,
     get_task_spec = parse_task_demo, get_action_spec = parse_action_demo\<rparr>"

text \<open>
  A workbook with four ad-hoc actions: one with both trees, one with none, one with
  both trees empty, one whose base action is not registered.
\<close>

definition greet_spec :: adhoc_action_spec where
  "greet_spec = \<lparr>clazz = ''std.echo'',
     base_parameters = PDict [(''output'', PStr ''<% $.who %> says hi'')],
     output_tree = PDict [(''greeting'', PStr ''<% $ %>'')]\<rparr>"

definition plain_spec :: adhoc_action_spec where
  "plain_spec = \<lparr>clazz = ''std.echo'', base_parameters = PNone, output_tree = PNone\<rparr>"

definition empty_spec :: adhoc_action_spec where
  "empty_spec = \<lparr>clazz = ''std.echo'', base_parameters = PDict [], output_tree = PDict []\<rparr>"

definition orphan_spec :: adhoc_action_spec where
  "orphan_spec = \<lparr>clazz = ''std.missing'', base_parameters = PNone, output_tree = PNone\<rparr>"

definition wb_demo :: workbook where
  "wb_demo = [(''demo.greet'', greet_spec), (''demo.plain'', plain_spec),
              (''demo.empty'', empty_spec), (''demo.orphan'', orphan_spec)]"

text \<open>
  The raw ad-hoc specs of \<open>demo.greet\<close>, \<open>demo.orphan\<close> and \<open>demo.ping\<close>, as a task
  carries them.
\<close>

definition greet_raw :: pydict where
  "greet_raw = [(''class'', PStr ''std.echo''),
     (''base-parameters'', PDict [(''output'', PStr ''<% $.who %> says hi'')]),
     (''output'', PDict [(''greeting'', PStr ''<% $ %>'')])]"

definition orphan_raw :: pydict where
  "orphan_raw = [(''class'', PStr ''std.missing'')]"

definition ping_raw :: pydict where
  "ping_raw = [(''class'', PStr ''std.mistral_http'')]"

text \<open>
  Tasks: one for the registered \<open>std.echo\<close>, one for the context-aware
  \<open>std.mistral_http\<close>, one for an unknown action with no parameters and a platform
  context, one for the ad-hoc \<open>demo.greet\<close> with a platform context, one for the ad-hoc
  \<open>demo.orphan\<close>, one for \<open>demo.greet\<close> with no platform context, one for the ad-hoc
  \<open>demo.ping\<close> over the context-aware base with no parameters, and one for
  \<open>std.echo\<close> whose raw task spec has no \<open>requires\<close> yet.
\<close>

definition task_echo :: db_task where
  "task_echo = \<lparr>task_id = ''t1'', task_name = ''say'', workbook_name = ''wb'',
     execution_id = ''e1'', tags = PList [],
     task_spec = [(''action'', PStr ''std.echo''), (''requires'', PDict [])],
     action_spec = None, parameters = Some [(''output'', PStr ''hi'')], in_context = []\<rparr>"

definition task_http :: db_task where
  "task_http = task_echo\<lparr>task_spec := [(''action'', PStr ''std.mistral_http''), (''requires'', PDict [])],
     parameters := Some [(''url'', PStr ''http://localhost'')]\<rparr>"

definition openstack_ctx_demo :: pyval where
  "openstack_ctx_demo = PDict [(''auth_token'', PStr ''tok'')]"

definition task_unknown :: db_task where
  "task_unknown = task_echo\<lparr>task_spec := [(''action'', PStr ''nonexistent.action''), (''requires'', PDict [])],
     parameters := None, in_context := [(''openstack'', openstack_ctx_demo)]\<rparr>"

definition task_greet :: db_task where
  "task_greet = task_echo\<lparr>task_spec := [(''action'', PStr ''demo.greet''), (''requires'', PDict [])],
     action_spec := Some greet_raw, parameters := Some [(''who'', PStr ''Ann'')],
     in_context := [(''openstack'', openstack_ctx_demo)]\<rparr>"

definition task_orphan :: db_task where
  "task_orphan = task_echo\<lparr>task_spec := [(''action'', PStr ''demo.orphan''), (''requires'', PDict [])],
     action_spec := Some orphan_raw, parameters := Some []\<rparr>"

definition task_greet_plain :: db_task where
  "task_greet_plain = task_greet\<lparr>in_context := []\<rparr>"

definition task_ping :: db_task where
  "task_ping = task_echo\<lparr>task_spec := [(''action'', PStr ''demo.ping''), (''requires'', PDict [])],
     action_spec := Some ping_raw, parameters := None\<rparr>"

definition task_fresh :: db_task where
  "task_fresh = task_echo\<lparr>task_spec := [(''action'', PStr ''std.echo'')]\<rparr>"

text \<open>
  The classes built for the records \<open>std.echo\<close> and \<open>std.mistral_http\<close>, and an ad-hoc
  spec whose output transform is the empty string.
\<close>

definition construct_echo :: pycls where
  "construct_echo = construct_demo ''mistral.actions.std_actions.EchoAction'' [(''output'', PNone)]"

definition construct_mistral_http :: pycls where
  "construct_mistral_http =
     construct_demo ''mistral.actions.std_actions.MistralHTTPAction'' [(''url'', PNone)]"

definition blank_spec :: adhoc_action_spec where
  "blank_spec = \<lparr>clazz = ''std.echo'', base_parameters = PNone, output_tree = PStr ''''\<rparr>"

section \<open>Sync: what a run keeps and what it replaces\<close>

lemma register_action_in_db_cases:
  "register_action_in_db n c a descr d =
     (if n \<in> set (map name d) then (Inr (), d)
      else (Inr (), d @ [\<lparr>name = n, action_class = c, attributes = a,
                           description = descr, is_system = True\<rparr>]))"
  by (simp add: register_action_in_db_def db_api_create_action_def)

lemma register_action_in_db_clear:
  "register_action_in_db n c a descr d = (r, d') \<Longrightarrow>
     clear_system_action_db d' = clear_system_action_db d"
  by (auto simp: register_action_in_db_cases clear_system_action_db_def db_api_delete_actions_def
           split: if_splits)

lemma register_generated_clear:
  "register_generated g c xs d = (r, d') \<Longrightarrow>
     clear_system_action_db d' = clear_system_action_db d"
proof (induction xs arbitrary: d)
  case Nil
  then show ?case by simp
next
  case (Cons x xs)
  then show ?case
    by (cases x) (auto split: sum.splits prod.splits dest: register_action_in_db_clear)
qed

lemma register_dynamic_action_classes_clear:
  "register_dynamic_action_classes gs d = (r, d') \<Longrightarrow>
     clear_system_action_db d' = clear_system_action_db d"
proof (induction gs arbitrary: d)
  case Nil
  then show ?case by simp
next
  case (Cons g gs)
  then show ?case
    by (auto split: sum.splits prod.splits dest: register_generated_clear)
qed

lemma register_extensions_clear:
  "register_extensions mgr ns d = (r, d') \<Longrightarrow>
     clear_system_action_db d' = clear_system_action_db d"
proof (induction ns arbitrary: d)
  case Nil
  then show ?case by simp
next
  case (Cons n ns)
  then show ?case
    by (auto split: option.splits sum.splits prod.splits dest: register_action_in_db_clear)
qed

lemma register_action_classes_clear:
  assumes "register_action_classes disc d = (r, d')"
  shows "clear_system_action_db d' = clear_system_action_db d"
proof (cases "extension_manager disc")
  case (Inl e)
  then show ?thesis using assms by (simp add: register_action_classes_def)
next
  case (Inr mgr)
  obtain r1 d1 where e: "register_extensions mgr (mgr_names mgr) d = (r1, d1)"
    by (cases "register_extensions mgr (mgr_names mgr) d")
  obtain r2 d2 where g: "register_dynamic_action_classes (all_generators disc) d1 = (r2, d2)"
    by (cases "register_dynamic_action_classes (all_generators disc) d1")
  have c1: "clear_system_action_db d1 = clear_system_action_db d"
    using register_extensions_clear [OF e] .
  have c2: "clear_system_action_db d2 = clear_system_action_db d1"
    using register_dynamic_action_classes_clear [OF g] .
  from assms Inr e g have "d' = d \<or> d' = d2"
    by (auto simp: register_action_classes_def db_api_transaction_def split: sum.splits)
  then show ?thesis using c1 c2 by auto
qed

lemma clear_system_action_db_idem:
  "clear_system_action_db (clear_system_action_db d) = clear_system_action_db d"
  by (simp add: clear_system_action_db_def db_api_delete_actions_def)

lemma sync_db_twice: "sync_db disc (snd (sync_db disc d)) = sync_db disc d"
proof -
  obtain r d' where s: "register_action_classes disc (clear_system_action_db d) = (r, d')"
    by (cases "register_action_classes disc (clear_system_action_db d)")
  have "clear_system_action_db d' = clear_system_action_db d"
    using register_action_classes_clear [OF s] clear_system_action_db_idem by simp
  then show ?thesis using s by (simp add: sync_db_def)
qed

text \<open>
  A transaction that fails gives back the registry it was started on; the deletion of
  the system records was done before it started.
\<close>

lemma register_action_classes_failure:
  "register_action_classes disc d = (Inl e, d') \<Longrightarrow> d' = d"
  by (auto simp: register_action_classes_def db_api_transaction_def
           split: sum.splits prod.splits)

lemma sync_db_failure:
  "sync_db disc d = (Inl e, d') \<Longrightarrow> d' = clear_system_action_db d"
  by (simp add: sync_db_def register_action_classes_failure)

text \<open>
  C7. Idempotent sync: for every registry and every fixed discovery, the system actions
  after a second \<open>sync_db\<close> are the system actions after the first.
\<close>

theorem sync_db_idempotent:
  "system_actions (snd (sync_db disc (snd (sync_db disc d)))) =
   system_actions (snd (sync_db disc d))"
  by (simp add: sync_db_twice)

text \<open>
  C1. A sync that fails partway leaves the registry as it was before the attempt. The
  code deletes the system records before the transaction of \<open>register_action_classes\<close>
  starts, so the claim fails: on the sample registry, with a generator whose
  \<open>create_action_classes\<close> raises, the sync ends with the exception and a registry that
  holds no system action, neither the two it had nor the ones a complete run registers.
\<close>

theorem sync_db_failure_drops_system_actions:
  "sync_db disc_broken db_demo = (Inl (CollaboratorError ''ImportError''), [user_record]) \<and>
   system_actions db_demo = {echo_record, mistral_http_record} \<and>
   system_actions [user_record] = {}"
  by (simp add: sync_db_def register_action_classes_def clear_system_action_db_def
      db_api_delete_actions_def db_api_transaction_def mgr_names_def mgr_getitem_def
      register_action_in_db_def db_api_create_action_def system_actions_def
      disc_broken_def echo_extension_def http_extension_def broken_generator_def
      db_demo_def echo_record_def mistral_http_record_def user_record_def)

section \<open>Duplicate names during a sync\<close>

text \<open>
  A registration always returns normally and leaves the name in the registry. When no
  discovery step raises, neither do the loops, and the names in the registry afterwards
  are the names it had, the names of the installed extensions and the full names of the
  generated classes.
\<close>

lemma register_action_in_db_names:
  "register_action_in_db n c a descr d = (r, d') \<Longrightarrow>
     r = Inr () \<and> set (map name d') = insert n (set (map name d))"
  by (auto simp: register_action_in_db_cases split: if_splits)

lemma find_Some_mem: "find P xs = Some x \<Longrightarrow> x \<in> set xs"
  by (induction xs) (auto split: if_splits)

lemma mgr_getitem_Some:
  "n \<in> set (mgr_names mgr) \<Longrightarrow> \<exists>e. mgr_getitem mgr n = Some e \<and> e \<in> set mgr"
proof -
  assume "n \<in> set (mgr_names mgr)"
  then have "\<exists>e\<in>set (rev mgr). ext_name e = n" by (auto simp: mgr_names_def)
  then obtain e where "find (\<lambda>e. ext_name e = n) (rev mgr) = Some e"
    by (cases "find (\<lambda>e. ext_name e = n) (rev mgr)") (auto simp: find_None_iff)
  moreover from this have "e \<in> set (rev mgr)" by (rule find_Some_mem)
  ultimately show ?thesis by (auto simp: mgr_getitem_def)
qed

lemma register_extensions_ok:
  assumes "\<forall>e\<in>set mgr. \<exists>a. plugin_fields e = Inr a"
    and "set ns \<subseteq> set (mgr_names mgr)"
  shows "fst (register_extensions mgr ns d) = Inr () \<and>
         set (map name (snd (register_extensions mgr ns d))) = set (map name d) \<union> set ns"
  using assms(2)
proof (induction ns arbitrary: d)
  case Nil
  then show ?case by simp
next
  case (Cons n ns)
  from Cons.prems obtain e where e: "mgr_getitem mgr n = Some e" "e \<in> set mgr"
    using mgr_getitem_Some [of n mgr] by auto
  with assms(1) obtain a where a: "plugin_fields e = Inr a" by auto
  obtain r d' where reg: "register_action_in_db n
      (map (\<lambda>c. if c = CHR '':'' then CHR ''.'' else c) (entry_point_target e)) a None d = (r, d')"
    by (cases "register_action_in_db n
      (map (\<lambda>c. if c = CHR '':'' then CHR ''.'' else c) (entry_point_target e)) a None d")
  from register_action_in_db_names [OF reg]
  have r: "r = Inr ()" and d': "set (map name d') = insert n (set (map name d))" by auto
  from Cons.prems have "set ns \<subseteq> set (mgr_names mgr)" by simp
  from Cons.IH [OF this, of d'] show ?case
    using e a reg r d' by auto
qed

lemma register_generated_ok:
  assumes "\<forall>kf\<in>set cs. \<exists>a. snd kf = Inr a"
  shows "fst (register_generated g c cs d) = Inr () \<and>
         set (map name (snd (register_generated g c cs d))) =
           set (map name d) \<union> (\<lambda>kf. action_namespace g @ ''.'' @ fst kf) ` set cs"
  using assms
proof (induction cs arbitrary: d)
  case Nil
  then show ?case by simp
next
  case (Cons x cs)
  obtain k pub where x: "x = (k, pub)" by (cases x)
  with Cons.prems obtain a where a: "pub = Inr a" by auto
  obtain r d' where reg:
    "register_action_in_db (action_namespace g @ ''.'' @ k) c a None d = (r, d')"
    by (cases "register_action_in_db (action_namespace g @ ''.'' @ k) c a None d")
  from register_action_in_db_names [OF reg]
  have r: "r = Inr ()"
    and d': "set (map name d') = insert (action_namespace g @ ''.'' @ k) (set (map name d))"
    by auto
  from Cons.prems have "\<forall>kf\<in>set cs. \<exists>a. snd kf = Inr a" by simp
  from Cons.IH [OF this, of d'] show ?case
    using x a reg r d' by auto
qed

lemma register_dynamic_action_classes_ok:
  assumes "\<forall>g\<in>set gs. \<exists>cs. create_action_classes g = Inr cs \<and> (\<forall>kf\<in>set cs. \<exists>a. snd kf = Inr a)"
  shows "fst (register_dynamic_action_classes gs d) = Inr () \<and>
         set (map name (snd (register_dynamic_action_classes gs d))) =
           set (map name d) \<union>
           set (concat (map produced_names gs))"
  using assms
proof (induction gs arbitrary: d)
  case Nil
  then show ?case by simp
next
  case (Cons g gs)
  from Cons.prems obtain cs where cs: "create_action_classes g = Inr cs"
    and ok: "\<forall>kf\<in>set cs. \<exists>a. snd kf = Inr a" by auto
  let ?c = "base_action_class_module g @ ''.'' @ base_action_class_name g"
  obtain r d' where reg: "register_generated g ?c cs d = (r, d')"
    by (cases "register_generated g ?c cs d")
  from register_generated_ok [OF ok, of g ?c d] reg
  have r: "r = Inr ()"
    and d': "set (map name d') =
               set (map name d) \<union> (\<lambda>kf. action_namespace g @ ''.'' @ fst kf) ` set cs"
    by auto
  from Cons.prems have "\<forall>g\<in>set gs. \<exists>cs. create_action_classes g = Inr cs \<and>
      (\<forall>kf\<in>set cs. \<exists>a. snd kf = Inr a)" by simp
  from Cons.IH [OF this, of d']
  have ih1: "fst (register_dynamic_action_classes gs d') = Inr ()"
    and ih2: "set (map name (snd (register_dynamic_action_classes gs d'))) =
           set (map name d') \<union>
           set (concat (map produced_names gs))"
    by auto
  have run: "register_dynamic_action_classes (g # gs) d = register_dynamic_action_classes gs d'"
    using cs reg r by simp
  have "produced_names g = map (\<lambda>kf. action_namespace g @ ''.'' @ fst kf) cs"
    using cs by (simp add: produced_names_def)
  then show ?case using run ih1 ih2 d' by auto
qed

lemma sync_db_ok:
  assumes "extension_manager disc = Inr mgr"
    and "\<forall>e\<in>set mgr. \<exists>a. plugin_fields e = Inr a"
    and "\<forall>g\<in>set (all_generators disc). \<exists>cs. create_action_classes g = Inr cs \<and>
           (\<forall>kf\<in>set cs. \<exists>a. snd kf = Inr a)"
  shows "fst (sync_db disc d) = Inr () \<and>
         set (map name (snd (sync_db disc d))) =
           set (map name (clear_system_action_db d)) \<union> set (mgr_names mgr) \<union>
           set (concat (map produced_names (all_generators disc)))"
proof -
  let ?d0 = "clear_system_action_db d"
  obtain r1 d1 where e: "register_extensions mgr (mgr_names mgr) ?d0 = (r1, d1)"
    by (cases "register_extensions mgr (mgr_names mgr) ?d0")
  from register_extensions_ok [OF assms(2), of "mgr_names mgr" ?d0] e
  have r1: "r1 = Inr ()"
    and d1: "set (map name d1) = set (map name ?d0) \<union> set (mgr_names mgr)" by auto
  obtain r2 d2 where g: "register_dynamic_action_classes (all_generators disc) d1 = (r2, d2)"
    by (cases "register_dynamic_action_classes (all_generators disc) d1")
  from register_dynamic_action_classes_ok [OF assms(3), of d1] g
  have r2: "r2 = Inr ()"
    and d2: "set (map name d2) = set (map name d1) \<union>
           set (concat (map produced_names (all_generators disc)))"
    by auto
  have "sync_db disc d = (Inr (), d2)"
    using assms(1) e g r1 r2
    by (simp add: sync_db_def register_action_classes_def db_api_transaction_def)
  then show ?thesis using d1 d2 by simp
qed

text \<open>
  C8. A duplicate-key failure of an insert during sync is benign:
  \<open>_register_action_in_db\<close> makes the insert without looking the name up first; when
  the name is taken, the \<open>DBDuplicateEntry\<close> of the persistence layer is caught there
  and the registry stays as it is; when it is free, the record is stored; no
  registration ever raises. A sync whose discovery and attribute extraction do not
  raise returns normally, whatever duplicates it met, and every discovered action, of an
  extension or of a generator, is in the registry afterwards: the names of the registry
  are those of its user records, of the extensions and of the generated classes.
\<close>

theorem duplicate_registration_benign:
  "fst (register_action_in_db n c a descr d) = Inr () \<and>
   (n \<in> set (map name d) \<longrightarrow>
      fst (db_api_create_action
             \<lparr>name = n, action_class = c, attributes = a, description = descr,
              is_system = True\<rparr> d) = Inl DBDuplicateEntry \<and>
      snd (register_action_in_db n c a descr d) = d) \<and>
   (n \<notin> set (map name d) \<longrightarrow>
      snd (register_action_in_db n c a descr d) =
        d @ [\<lparr>name = n, action_class = c, attributes = a, description = descr,
               is_system = True\<rparr>]) \<and>
   (extension_manager disc = Inr mgr \<and>
    (\<forall>e\<in>set mgr. \<exists>a. plugin_fields e = Inr a) \<and>
    (\<forall>g\<in>set (all_generators disc). \<exists>cs. create_action_classes g = Inr cs \<and>
           (\<forall>kf\<in>set cs. \<exists>a. snd kf = Inr a)) \<longrightarrow>
      fst (sync_db disc d) = Inr () \<and>
      set (map name (snd (sync_db disc d))) =
        set (map name (clear_system_action_db d)) \<union> set (mgr_names mgr) \<union>
        set (concat (map produced_names (all_generators disc))))"
proof -
  have 1: "fst (register_action_in_db n c a descr d) = Inr ()"
    by (simp add: register_action_in_db_cases)
  have 2: "n \<in> set (map name d) \<longrightarrow>
      fst (db_api_create_action
             \<lparr>name = n, action_class = c, attributes = a, description = descr,
              is_system = True\<rparr> d) = Inl DBDuplicateEntry \<and>
      snd (register_action_in_db n c a descr d) = d"
    by (simp add: register_action_in_db_cases db_api_create_action_def)
  have 3: "n \<notin> set (map name d) \<longrightarrow>
      snd (register_action_in_db n c a descr d) =
        d @ [\<lparr>name = n, action_class = c, attributes = a, description = descr,
               is_system = True\<rparr>]"
    by (simp add: register_action_in_db_cases)
  show ?thesis using 1 2 3 sync_db_ok [of disc mgr d] by blast
qed

theorem duplicate_registration_benign_witness:
  "''std.http'' \<in> set (map name db_dup) \<and>
   register_action_in_db ''std.http'' ''mistral.actions.std_actions.HTTPAction''
     [(''url'', PNone)] None db_dup = (Inr (), db_dup) \<and>
   extension_manager disc_demo = Inr [echo_extension, http_extension] \<and>
   fst (sync_db disc_demo db_dup) = Inr () \<and>
   set (map name (snd (sync_db disc_demo db_dup))) =
     {''std.http'', ''nova.servers_list'', ''std.echo'', ''nova.servers_get''} \<and>
   map name (snd (sync_db disc_demo db_dup)) =
     [''std.http'', ''nova.servers_list'', ''std.echo'', ''nova.servers_get''] \<and>
   map is_system (snd (sync_db disc_demo db_dup)) = [False, False, True, True]"
proof -
  have m: "''std.http'' \<in> set (map name db_dup)"
    by (simp add: db_dup_def echo_record_def user_record_def nova_user_record_def)
  have x: "extension_manager disc_demo = Inr [echo_extension, http_extension]"
    by (simp add: disc_demo_def)
  have e: "\<forall>e\<in>set [echo_extension, http_extension]. \<exists>a. plugin_fields e = Inr a"
    by (simp add: echo_extension_def http_extension_def)
  have g: "\<forall>g\<in>set (all_generators disc_demo). \<exists>cs. create_action_classes g = Inr cs \<and>
      (\<forall>kf\<in>set cs. \<exists>a. snd kf = Inr a)"
    by (simp add: disc_demo_def nova_generator_def)
  have r: "snd (sync_db disc_demo db_dup) =
             [user_record, nova_user_record,
              \<lparr>name = ''std.echo'', action_class = ''mistral.actions.std_actions.EchoAction'',
               attributes = [(''output'', PNone)], description = None, is_system = True\<rparr>,
              \<lparr>name = ''nova.servers_get'',
               action_class = ''mistral.actions.openstack.actions.NovaAction'',
               attributes = [], description = None, is_system = True\<rparr>]"
    by (simp add: sync_db_def register_action_classes_def clear_system_action_db_def
      db_api_delete_actions_def db_api_transaction_def mgr_names_def mgr_getitem_def
      register_action_in_db_def db_api_create_action_def
      disc_demo_def echo_extension_def http_extension_def nova_generator_def
      db_dup_def echo_record_def user_record_def nova_user_record_def)
  from duplicate_registration_benign [of "''std.http''"
      "''mistral.actions.std_actions.HTTPAction''" "[(''url'', PNone)]" None db_dup disc_demo
      "[echo_extension, http_extension]"] m x e g
  have "fst (register_action_in_db ''std.http'' ''mistral.actions.std_actions.HTTPAction''
          [(''url'', PNone)] None db_dup) = Inr () \<and>
        snd (register_action_in_db ''std.http'' ''mistral.actions.std_actions.HTTPAction''
          [(''url'', PNone)] None db_dup) = db_dup \<and>
        fst (sync_db disc_demo db_dup) = Inr ()"
    by blast
  then show ?thesis using m x r
    by (simp add: prod_eq_iff user_record_def nova_user_record_def insert_commute)
qed

section \<open>The factory on unknown and unregistered actions\<close>

text \<open>
  C2. \<open>create_action\<close> raises the "Unknown action" exception when the name is not
  registered and the task has no ad-hoc spec. The code first stores the platform context
  with \<open>db_task['parameters'].update\<close>, which fails on a task whose parameters are
  \<open>None\<close> (the value the later \<open>db_task['parameters'] or {}\<close> allows for): on such a
  task the exception is \<open>AttributeError\<close>.
\<close>

theorem create_action_unknown_raises_attribute_error:
  "get_action_class rt_py2 db_demo
     (get_full_action_name (fst (get_task_spec rt_py2 (task_spec task_unknown)))) = None \<and>
   action_spec task_unknown = None \<and>
   create_action rt_py2 \<lparr>registry = db_demo, task = task_unknown\<rparr> =
     (Inl AttributeError, \<lparr>registry = db_demo, task = task_unknown\<rparr>)"
  by (simp add: create_action_def create_adhoc_action_def has_action_context_param_def
      get_action_context_def params_or_empty_def instantiate_def dict_get_def
      ACTION_CTX_PARAM_def Let_def get_action_class_def get_action_db_def db_api_load_action_def
      rt_py2_def construct_demo_def parse_task_demo_def parse_action_demo_def
      db_demo_def echo_record_def mistral_http_record_def user_record_def
      task_unknown_def task_echo_def openstack_ctx_demo_def)

text \<open>On every other task of that kind the exception is the one the claim names.\<close>

lemma create_action_unknown:
  assumes "get_action_class rt (registry s)
             (get_full_action_name (fst (get_task_spec rt (task_spec (task s))))) = None"
    and "action_spec (task s) = None \<or> action_spec (task s) = Some []"
    and "dict_get (in_context (task s)) ''openstack'' = PNone \<or> parameters (task s) \<noteq> None"
  shows "fst (create_action rt s) =
           Inl (ActionException (Unknown_action (workbook_name (task s))
                  (get_full_action_name (fst (get_task_spec rt (task_spec (task s)))))))"
  using assms
  by (auto simp: create_action_def create_adhoc_action_def Let_def split: option.splits)

text \<open>
  C3. An ad-hoc spec whose base action is not registered makes both
  \<open>resolve_adhoc_action_name\<close> and \<open>_create_adhoc_action\<close> raise the "base class is not
  registered" exception. \<open>_create_adhoc_action\<close> asks for the context parameter of the
  base class before it tests that the class was found, so with Python 2 it raises
  \<open>TypeError\<close> instead.
\<close>

theorem create_adhoc_action_unregistered_base_raises_type_error:
  "action_spec task_orphan = Some orphan_raw \<and>
   fst (get_action_spec rt_py2 orphan_raw) = orphan_spec \<and>
   get_action_class rt_py2 db_demo (clazz orphan_spec) = None \<and>
   create_adhoc_action rt_py2 db_demo task_orphan PNone = (Inl TypeError, task_orphan) \<and>
   fst (create_action rt_py2 \<lparr>registry = db_demo, task = task_orphan\<rparr>) = Inl TypeError"
  by (simp add: create_action_def create_adhoc_action_def has_action_context_param_def
      get_action_context_def params_or_empty_def instantiate_def dict_get_def
      ACTION_CTX_PARAM_def Let_def get_action_class_def get_action_db_def db_api_load_action_def
      rt_py2_def construct_demo_def parse_task_demo_def parse_action_demo_def
      db_demo_def echo_record_def mistral_http_record_def user_record_def
      task_orphan_def task_echo_def orphan_spec_def orphan_raw_def)

text \<open>
  \<open>resolve_adhoc_action_name\<close> does raise the exception of the claim, and
  \<open>_create_adhoc_action\<close> raises it exactly when the interpreter answers the
  signature request on \<open>None\<close>.
\<close>

lemma resolve_adhoc_action_name_unregistered_base:
  "get_action wb action_name = Some sp \<Longrightarrow> get_action_class rt d (clazz sp) = None \<Longrightarrow>
     resolve_adhoc_action_name rt d wb action_name =
       Inl (ActionException (Adhoc_base_not_registered action_name))"
  by (simp add: resolve_adhoc_action_name_def)

lemma create_adhoc_action_unregistered_base:
  "action_spec t = Some raw \<Longrightarrow> raw \<noteq> [] \<Longrightarrow>
   get_action_class rt d (clazz (fst (get_action_spec rt raw))) = None \<Longrightarrow>
     fst (create_adhoc_action rt d t octx) =
       (case none_init_argspec rt of
          Inl e \<Rightarrow> Inl e
        | Inr args \<Rightarrow>
            Inl (ActionException (Adhoc_base_not_registered_task (workbook_name t)
                   (get_full_action_name (fst (get_task_spec rt (task_spec t)))))))"
  by (simp add: create_adhoc_action_def has_action_context_param_def Let_def split: sum.splits)

section \<open>What the factory writes\<close>

text \<open>
  C4 as stated: \<open>create_action\<close> leaves every field of the task unchanged, the
  parameters in particular. It does not: for the ad-hoc task \<open>demo.greet\<close>, whose
  context holds a platform context, the call stores that context in the task's
  parameters under \<open>openstack\<close>.
\<close>

theorem create_action_changes_parameters:
  "parameters task_greet = Some [(''who'', PStr ''Ann'')] \<and>
   parameters (task (snd (create_action rt_py2 \<lparr>registry = db_demo, task = task_greet\<rparr>))) =
     Some [(''who'', PStr ''Ann''), (''openstack'', openstack_ctx_demo)]"
  by (simp add: create_action_def create_adhoc_action_def has_action_context_param_def
      get_action_context_def params_or_empty_def instantiate_def dict_get_def
      ACTION_CTX_PARAM_def Let_def get_action_class_def get_action_db_def db_api_load_action_def
      never_raises_def
      rt_py2_def construct_demo_def parse_task_demo_def parse_action_demo_def
      db_demo_def echo_record_def mistral_http_record_def user_record_def
      task_greet_def task_echo_def greet_raw_def openstack_ctx_demo_def)

text \<open>
  What each function leaves alone. The raw specs are written by the parser only: the
  task spec is parsed once on the registered path and twice on the ad-hoc path, the
  ad-hoc spec once when it is not falsy.
\<close>

lemma create_adhoc_action_untouched:
  "task_id (snd (create_adhoc_action rt d t octx)) = task_id t"
  "task_name (snd (create_adhoc_action rt d t octx)) = task_name t"
  "workbook_name (snd (create_adhoc_action rt d t octx)) = workbook_name t"
  "execution_id (snd (create_adhoc_action rt d t octx)) = execution_id t"
  "tags (snd (create_adhoc_action rt d t octx)) = tags t"
  "in_context (snd (create_adhoc_action rt d t octx)) = in_context t"
  "parameters (snd (create_adhoc_action rt d t octx)) = parameters t"
  by (simp_all add: create_adhoc_action_def Let_def split: option.splits sum.splits)

lemma create_adhoc_action_task_spec:
  "task_spec (snd (create_adhoc_action rt d t octx)) = snd (get_task_spec rt (task_spec t))"
  by (simp add: create_adhoc_action_def Let_def split: option.splits sum.splits)

lemma create_adhoc_action_action_spec:
  "action_spec (snd (create_adhoc_action rt d t octx)) =
     (case action_spec t of
        None \<Rightarrow> None
      | Some raw \<Rightarrow> if raw = [] then Some raw else Some (snd (get_action_spec rt raw)))"
  by (simp add: create_adhoc_action_def Let_def split: option.splits sum.splits)


lemma create_action_registry:
  "registry (snd (create_action rt s)) = registry s"
  by (simp add: create_action_def Let_def split: option.splits sum.splits)

lemma create_action_untouched:
  "task_id (task (snd (create_action rt s))) = task_id (task s)"
  "task_name (task (snd (create_action rt s))) = task_name (task s)"
  "workbook_name (task (snd (create_action rt s))) = workbook_name (task s)"
  "execution_id (task (snd (create_action rt s))) = execution_id (task s)"
  "tags (task (snd (create_action rt s))) = tags (task s)"
  "in_context (task (snd (create_action rt s))) = in_context (task s)"
  by (simp_all add: create_action_def Let_def create_adhoc_action_untouched
        split: option.splits sum.splits)


lemma create_action_task_spec:
  assumes "snd (get_task_spec rt (task_spec (task s))) = task_spec (task s)"
  shows "task_spec (task (snd (create_action rt s))) = task_spec (task s)"
  using assms
  by (simp add: create_action_def Let_def create_adhoc_action_task_spec
        split: option.splits sum.splits)

lemma create_action_action_spec:
  assumes "\<forall>raw. action_spec (task s) = Some raw \<longrightarrow> snd (get_action_spec rt raw) = raw"
  shows "action_spec (task (snd (create_action rt s))) = action_spec (task s)"
  using assms
  by (simp add: create_action_def Let_def create_adhoc_action_action_spec
        split: option.splits sum.splits)

lemma create_action_adhoc_no_platform_context:
  assumes "get_action_class rt (registry s)
             (get_full_action_name (fst (get_task_spec rt (task_spec (task s))))) = None"
    and "dict_get (in_context (task s)) ''openstack'' = PNone"
  shows "parameters (task (snd (create_action rt s))) = parameters (task s)"
  using assms
  by (simp add: create_action_def Let_def create_adhoc_action_untouched
        split: option.splits sum.splits)

lemma create_action_registered_no_context:
  assumes "get_action_class rt (registry s)
             (get_full_action_name (fst (get_task_spec rt (task_spec (task s))))) = Some c"
    and "has_action_context_param rt (Some c) \<noteq> Inr True"
  shows "parameters (task (snd (create_action rt s))) = parameters (task s)"
  using assms by (auto simp: create_action_def Let_def split: option.splits sum.splits)

lemma create_action_adhoc_platform_context:
  assumes "get_action_class rt (registry s)
             (get_full_action_name (fst (get_task_spec rt (task_spec (task s))))) = None"
    and "dict_get (in_context (task s)) ''openstack'' \<noteq> PNone"
    and "parameters (task s) = Some p"
  shows "parameters (task (snd (create_action rt s))) =
           Some (AList.update ''openstack'' (dict_get (in_context (task s)) ''openstack'') p)"
  using assms
  by (simp add: create_action_def Let_def create_adhoc_action_untouched
        split: option.splits sum.splits)

lemma create_action_adhoc_no_parameters:
  assumes "get_action_class rt (registry s)
             (get_full_action_name (fst (get_task_spec rt (task_spec (task s))))) = None"
    and "dict_get (in_context (task s)) ''openstack'' \<noteq> PNone"
    and "parameters (task s) = None"
  shows "parameters (task (snd (create_action rt s))) = None"
  using assms
  by (simp add: create_action_def Let_def)

text \<open>
  C4, amended. \<open>create_action\<close> writes nothing to the registry and, whether it returns
  an action or raises, leaves the task's id, name, workbook name, execution id, tags and
  context unchanged. The raw task spec and the raw ad-hoc spec are handed to the spec
  parser and are unchanged when the parser does not write to them. The parameters are
  unchanged when the name is not registered and the context holds no platform context,
  and when the registered class does not take the context parameter. When the name is
  not registered and the context holds a platform context, that context is stored in
  the task's parameters under \<open>openstack\<close> if the parameters are a dict; if they are
  \<open>None\<close> nothing is stored.
\<close>

theorem create_action_frame:
  "registry (snd (create_action rt s)) = registry s \<and>
   task_id (task (snd (create_action rt s))) = task_id (task s) \<and>
   task_name (task (snd (create_action rt s))) = task_name (task s) \<and>
   workbook_name (task (snd (create_action rt s))) = workbook_name (task s) \<and>
   execution_id (task (snd (create_action rt s))) = execution_id (task s) \<and>
   tags (task (snd (create_action rt s))) = tags (task s) \<and>
   in_context (task (snd (create_action rt s))) = in_context (task s) \<and>
   (snd (get_task_spec rt (task_spec (task s))) = task_spec (task s) \<longrightarrow>
      task_spec (task (snd (create_action rt s))) = task_spec (task s)) \<and>
   ((\<forall>raw. action_spec (task s) = Some raw \<longrightarrow> snd (get_action_spec rt raw) = raw) \<longrightarrow>
      action_spec (task (snd (create_action rt s))) = action_spec (task s)) \<and>
   (get_action_class rt (registry s)
      (get_full_action_name (fst (get_task_spec rt (task_spec (task s))))) = None \<and>
    dict_get (in_context (task s)) ''openstack'' = PNone \<longrightarrow>
      parameters (task (snd (create_action rt s))) = parameters (task s)) \<and>
   (get_action_class rt (registry s)
      (get_full_action_name (fst (get_task_spec rt (task_spec (task s))))) = Some c \<and>
    has_action_context_param rt (Some c) \<noteq> Inr True \<longrightarrow>
      parameters (task (snd (create_action rt s))) = parameters (task s)) \<and>
   (get_action_class rt (registry s)
      (get_full_action_name (fst (get_task_spec rt (task_spec (task s))))) = None \<and>
    dict_get (in_context (task s)) ''openstack'' \<noteq> PNone \<and>
    parameters (task s) = Some p \<longrightarrow>
      parameters (task (snd (create_action rt s))) =
        Some (AList.update ''openstack'' (dict_get (in_context (task s)) ''openstack'') p)) \<and>
   (get_action_class rt (registry s)
      (get_full_action_name (fst (get_task_spec rt (task_spec (task s))))) = None \<and>
    dict_get (in_context (task s)) ''openstack'' \<noteq> PNone \<and>
    parameters (task s) = None \<longrightarrow>
      parameters (task (snd (create_action rt s))) = None)"
  using create_action_registry [where rt = rt and s = s]
    create_action_untouched [where rt = rt and s = s]
    create_action_task_spec [where rt = rt and s = s]
    create_action_action_spec [where rt = rt and s = s]
    create_action_adhoc_no_platform_context [where rt = rt and s = s]
    create_action_registered_no_context [where rt = rt and s = s and c = c]
    create_action_adhoc_platform_context [where rt = rt and s = s and p = p]
    create_action_adhoc_no_parameters [where rt = rt and s = s]
  by blast

text \<open>
  On the registered path the raw task spec is left as the parser leaves it; the sample
  parser adds \<open>requires\<close> to a raw spec that has none.
\<close>

lemma create_action_registered_task_spec:
  assumes "get_action_class rt (registry s)
             (get_full_action_name (fst (get_task_spec rt (task_spec (task s))))) = Some c"
  shows "task_spec (task (snd (create_action rt s))) =
           snd (get_task_spec rt (task_spec (task s)))"
  using assms by (simp add: create_action_def Let_def split: sum.splits)

lemma sample_lookup:
  "get_action_class rt_py2 db_demo ''std.echo'' = Some construct_echo"
  "get_action_class rt_py2 db_demo ''demo.greet'' = None"
  "get_action_class rt_py2 db_demo ''nonexistent.action'' = None"
  by (simp_all add: get_action_class_def get_action_db_def db_api_load_action_def
        rt_py2_def construct_demo_def construct_echo_def
        db_demo_def echo_record_def mistral_http_record_def user_record_def)

theorem create_action_frame_witness:
  "get_action_class rt_py2 db_demo
     (get_full_action_name (fst (get_task_spec rt_py2 (task_spec task_echo)))) =
     Some construct_echo \<and>
   has_action_context_param rt_py2 (Some construct_echo) \<noteq> Inr True \<and>
   snd (get_task_spec rt_py2 (task_spec task_echo)) = task_spec task_echo \<and>
   action_spec task_echo = None \<and>
   snd (create_action rt_py2 \<lparr>registry = db_demo, task = task_echo\<rparr>) =
     \<lparr>registry = db_demo, task = task_echo\<rparr> \<and>
   get_action_class rt_py2 db_demo
     (get_full_action_name (fst (get_task_spec rt_py2 (task_spec task_greet_plain)))) = None \<and>
   dict_get (in_context task_greet_plain) ''openstack'' = PNone \<and>
   action_spec task_greet_plain = Some greet_raw \<and>
   snd (get_action_spec rt_py2 greet_raw) = greet_raw \<and>
   parameters (task (snd (create_action rt_py2
      \<lparr>registry = db_demo, task = task_greet_plain\<rparr>))) = parameters task_greet_plain \<and>
   action_spec (task (snd (create_action rt_py2
      \<lparr>registry = db_demo, task = task_greet_plain\<rparr>))) = Some greet_raw \<and>
   get_action_class rt_py2 db_demo
     (get_full_action_name (fst (get_task_spec rt_py2 (task_spec task_greet)))) = None \<and>
   dict_get (in_context task_greet) ''openstack'' = openstack_ctx_demo \<and>
   openstack_ctx_demo \<noteq> PNone \<and>
   parameters task_greet = Some [(''who'', PStr ''Ann'')] \<and>
   parameters (task (snd (create_action rt_py2 \<lparr>registry = db_demo, task = task_greet\<rparr>))) =
     Some [(''who'', PStr ''Ann''), (''openstack'', openstack_ctx_demo)] \<and>
   registry (snd (create_action rt_py2 \<lparr>registry = db_demo, task = task_greet\<rparr>)) = db_demo \<and>
   in_context (task (snd (create_action rt_py2
      \<lparr>registry = db_demo, task = task_greet\<rparr>))) = in_context task_greet \<and>
   get_action_class rt_py2 db_demo
     (get_full_action_name (fst (get_task_spec rt_py2 (task_spec task_unknown)))) = None \<and>
   dict_get (in_context task_unknown) ''openstack'' = openstack_ctx_demo \<and>
   parameters task_unknown = None \<and>
   parameters (task (snd (create_action rt_py2
      \<lparr>registry = db_demo, task = task_unknown\<rparr>))) = None \<and>
   task_spec task_fresh = [(''action'', PStr ''std.echo'')] \<and>
   task_spec (task (snd (create_action rt_py2 \<lparr>registry = db_demo, task = task_fresh\<rparr>))) =
     [(''action'', PStr ''std.echo''), (''requires'', PDict [])] \<and>
   task_id (task (snd (create_action rt_py2 \<lparr>registry = db_demo, task = task_fresh\<rparr>))) =
     task_id task_fresh"
proof -
  let ?s = "\<lambda>t. \<lparr>registry = db_demo, task = t\<rparr>"
  have n: "get_full_action_name (fst (get_task_spec rt_py2 (task_spec task_echo))) = ''std.echo''"
    "get_full_action_name (fst (get_task_spec rt_py2 (task_spec task_greet_plain))) = ''demo.greet''"
    "get_full_action_name (fst (get_task_spec rt_py2 (task_spec task_greet))) = ''demo.greet''"
    "get_full_action_name (fst (get_task_spec rt_py2 (task_spec task_unknown))) =
       ''nonexistent.action''"
    "get_full_action_name (fst (get_task_spec rt_py2 (task_spec task_fresh))) = ''std.echo''"
    by (simp_all add: rt_py2_def parse_task_demo_def dict_get_def task_echo_def
          task_greet_plain_def task_greet_def task_unknown_def task_fresh_def)
  have raw: "snd (get_task_spec rt_py2 (task_spec task_echo)) = task_spec task_echo"
    "snd (get_task_spec rt_py2 (task_spec task_fresh)) =
       [(''action'', PStr ''std.echo''), (''requires'', PDict [])]"
    "task_spec task_fresh = [(''action'', PStr ''std.echo'')]"
    "snd (get_action_spec rt_py2 greet_raw) = greet_raw"
    by (simp_all add: rt_py2_def parse_task_demo_def parse_action_demo_def task_echo_def
          task_fresh_def)
  have ctx: "dict_get (in_context task_greet_plain) ''openstack'' = PNone"
    "dict_get (in_context task_greet) ''openstack'' = openstack_ctx_demo"
    "dict_get (in_context task_unknown) ''openstack'' = openstack_ctx_demo"
    "openstack_ctx_demo \<noteq> PNone"
    by (simp_all add: dict_get_def task_greet_plain_def task_greet_def task_unknown_def
          task_echo_def openstack_ctx_demo_def)
  have flds: "action_spec task_echo = None" "action_spec task_greet_plain = Some greet_raw"
    "parameters task_greet = Some [(''who'', PStr ''Ann'')]" "parameters task_unknown = None"
    by (simp_all add: task_echo_def task_greet_plain_def task_greet_def task_unknown_def)
  have acc: "has_action_context_param rt_py2 (Some construct_echo) \<noteq> Inr True"
    by (simp add: has_action_context_param_def ACTION_CTX_PARAM_def construct_demo_def
          construct_echo_def)
  note f_echo = create_action_frame [where rt = rt_py2 and s = "?s task_echo"
      and c = construct_echo, simplified]
  note f_plain = create_action_frame [where rt = rt_py2 and s = "?s task_greet_plain",
      simplified]
  note f_greet = create_action_frame [where rt = rt_py2 and s = "?s task_greet"
      and p = "[(''who'', PStr ''Ann'')]", simplified]
  note f_unknown = create_action_frame [where rt = rt_py2 and s = "?s task_unknown", simplified]
  note f_fresh = create_action_frame [where rt = rt_py2 and s = "?s task_fresh", simplified]
  have echo: "snd (create_action rt_py2 (?s task_echo)) = ?s task_echo"
    using f_echo n raw flds acc sample_lookup
    by (simp add: state.equality db_task.equality)
  have plain: "parameters (task (snd (create_action rt_py2 (?s task_greet_plain)))) =
                 parameters task_greet_plain"
      "action_spec (task (snd (create_action rt_py2 (?s task_greet_plain)))) = Some greet_raw"
    using f_plain n raw flds ctx sample_lookup by simp_all
  have greet: "parameters (task (snd (create_action rt_py2 (?s task_greet)))) =
       Some [(''who'', PStr ''Ann''), (''openstack'', openstack_ctx_demo)]"
      "registry (snd (create_action rt_py2 (?s task_greet))) = db_demo"
      "in_context (task (snd (create_action rt_py2 (?s task_greet)))) = in_context task_greet"
    using f_greet n flds ctx sample_lookup by simp_all
  have unknown: "parameters (task (snd (create_action rt_py2 (?s task_unknown)))) = None"
    using f_unknown n flds ctx sample_lookup by simp
  have fresh: "task_id (task (snd (create_action rt_py2 (?s task_fresh)))) = task_id task_fresh"
    using f_fresh by simp
  have fresh_spec: "task_spec (task (snd (create_action rt_py2 (?s task_fresh)))) =
     [(''action'', PStr ''std.echo''), (''requires'', PDict [])]"
    using n raw sample_lookup
      create_action_registered_task_spec [where rt = rt_py2 and s = "?s task_fresh"
        and c = construct_echo]
    by simp
  show ?thesis
    using n raw ctx flds acc sample_lookup echo plain greet unknown fresh fresh_spec by simp
qed

section \<open>Context injection\<close>

text \<open>
  The execution context is built from fields the parser and the factory never write.
\<close>

lemma get_action_context_task_spec:
  "get_action_context (t\<lparr>task_spec := x\<rparr>) octx = get_action_context t octx"
  "get_action_context (t\<lparr>action_spec := y\<rparr>) octx = get_action_context t octx"
  "get_action_context (t\<lparr>parameters := z\<rparr>) octx = get_action_context t octx"
  by (simp_all add: get_action_context_def)

lemma create_action_registered:
  assumes "get_action_class rt (registry s)
             (get_full_action_name (fst (get_task_spec rt (task_spec (task s))))) = Some c"
    and "init_argspec c = Inr args"
  shows "has_action_context_param rt (Some c) = Inr (''action_context'' \<in> set args) \<and>
    (''action_context'' \<notin> set args \<longrightarrow>
       fst (create_action rt s) = instantiate c (params_or_empty (parameters (task s)))) \<and>
    (''action_context'' \<in> set args \<longrightarrow>
       fst (create_action rt s) =
         instantiate c
           (AList.update ''action_context''
              (PDict (get_action_context (task s) (dict_get (in_context (task s)) ''openstack'')))
              (params_or_empty (parameters (task s)))))"
  using assms
  by (simp add: create_action_def has_action_context_param_def ACTION_CTX_PARAM_def Let_def
        get_action_context_task_spec)

lemma create_adhoc_action_gating:
  assumes "action_spec t = Some raw" and "raw \<noteq> []"
    and "get_action_class rt d (clazz (fst (get_action_spec rt raw))) = Some b"
    and "init_argspec b = Inr bargs"
  shows "fst (create_adhoc_action rt d t octx) =
           Inr (Some (AdHocAction
                  (if ''action_context'' \<in> set bargs then PDict (get_action_context t octx)
                   else PNone)
                  b (fst (get_action_spec rt raw)) (params_or_empty (parameters t))))"
  using assms
  by (simp add: create_adhoc_action_def has_action_context_param_def ACTION_CTX_PARAM_def Let_def
        get_action_context_task_spec)

lemma create_action_adhoc_gating:
  assumes "get_action_class rt (registry s)
             (get_full_action_name (fst (get_task_spec rt (task_spec (task s))))) = None"
    and "action_spec (task s) = Some raw" and "raw \<noteq> []"
    and "get_action_class rt (registry s) (clazz (fst (get_action_spec rt raw))) = Some b"
    and "init_argspec b = Inr bargs"
    and "dict_get (in_context (task s)) ''openstack'' = PNone \<or> parameters (task s) \<noteq> None"
  shows "fst (create_action rt s) =
           Inr (AdHocAction
                  (if ''action_context'' \<in> set bargs
                   then PDict (get_action_context (task s)
                                 (dict_get (in_context (task s)) ''openstack''))
                   else PNone)
                  b (fst (get_action_spec rt raw))
                  (if dict_get (in_context (task s)) ''openstack'' \<noteq> PNone
                   then AList.update ''openstack'' (dict_get (in_context (task s)) ''openstack'')
                          (params_or_empty (parameters (task s)))
                   else params_or_empty (parameters (task s))))"
proof -
  let ?octx = "dict_get (in_context (task s)) ''openstack''"
  let ?t = "(task s)\<lparr>task_spec := snd (get_task_spec rt (task_spec (task s)))\<rparr>"
  let ?t' = "if ?octx \<noteq> PNone
             then ?t\<lparr>parameters := Some (AList.update ''openstack'' ?octx
                                          (params_or_empty (parameters (task s))))\<rparr>
             else ?t"
  have a: "action_spec ?t' = Some raw" using assms(2) by simp
  have run: "fst (create_action rt s) =
      (case fst (create_adhoc_action rt (registry s) ?t' ?octx) of
         Inl e \<Rightarrow> Inl e
       | Inr None \<Rightarrow> Inl (ActionException (Unknown_action
            (workbook_name (snd (create_adhoc_action rt (registry s) ?t' ?octx)))
            (get_full_action_name (fst (get_task_spec rt (task_spec (task s)))))))
       | Inr (Some a) \<Rightarrow> Inr a)"
    using assms(1,6)
    by (auto simp: create_action_def Let_def params_or_empty_def split: option.splits sum.splits)
  show ?thesis
    unfolding run
    using create_adhoc_action_gating [OF a assms(3,4,5), of ?octx]
    by (simp add: params_or_empty_def get_action_context_task_spec)
qed

text \<open>
  C9. Context gating. For a task whose action is registered,
  \<open>_has_action_context_param\<close> answers whether \<open>action_context\<close> is among the
  arguments of the constructor; when it is not, the constructor is called with the
  task's own parameters and nothing else; when it is, with these parameters and the
  execution context stored under \<open>action_context\<close>. For an ad-hoc action,
  \<open>_create_adhoc_action\<close> hands the wrapper the execution context when the base class
  takes the parameter and \<open>None\<close> when it does not, and \<open>create_action\<close> returns that
  wrapper.
\<close>

theorem create_action_context_gating:
  "(get_action_class rt (registry s)
      (get_full_action_name (fst (get_task_spec rt (task_spec (task s))))) = Some c \<and>
    init_argspec c = Inr args \<longrightarrow>
      has_action_context_param rt (Some c) = Inr (''action_context'' \<in> set args) \<and>
      (''action_context'' \<notin> set args \<longrightarrow>
         fst (create_action rt s) = instantiate c (params_or_empty (parameters (task s)))) \<and>
      (''action_context'' \<in> set args \<longrightarrow>
         fst (create_action rt s) =
           instantiate c
             (AList.update ''action_context''
                (PDict (get_action_context (task s)
                          (dict_get (in_context (task s)) ''openstack'')))
                (params_or_empty (parameters (task s)))))) \<and>
   (action_spec t = Some raw \<and> raw \<noteq> [] \<and>
    get_action_class rt d (clazz (fst (get_action_spec rt raw))) = Some b \<and>
    init_argspec b = Inr bargs \<longrightarrow>
      fst (create_adhoc_action rt d t octx) =
        Inr (Some (AdHocAction
               (if ''action_context'' \<in> set bargs then PDict (get_action_context t octx)
                else PNone)
               b (fst (get_action_spec rt raw)) (params_or_empty (parameters t))))) \<and>
   (get_action_class rt (registry s)
      (get_full_action_name (fst (get_task_spec rt (task_spec (task s))))) = None \<and>
    action_spec (task s) = Some raw \<and> raw \<noteq> [] \<and>
    get_action_class rt (registry s) (clazz (fst (get_action_spec rt raw))) = Some b \<and>
    init_argspec b = Inr bargs \<and>
    (dict_get (in_context (task s)) ''openstack'' = PNone \<or> parameters (task s) \<noteq> None) \<longrightarrow>
      fst (create_action rt s) =
        Inr (AdHocAction
               (if ''action_context'' \<in> set bargs
                then PDict (get_action_context (task s)
                              (dict_get (in_context (task s)) ''openstack''))
                else PNone)
               b (fst (get_action_spec rt raw))
               (if dict_get (in_context (task s)) ''openstack'' \<noteq> PNone
                then AList.update ''openstack'' (dict_get (in_context (task s)) ''openstack'')
                       (params_or_empty (parameters (task s)))
                else params_or_empty (parameters (task s)))))"
  using create_action_registered [where rt = rt and s = s and c = c and args = args]
    create_adhoc_action_gating [where rt = rt and d = d and t = t and raw = raw and b = b
      and bargs = bargs and octx = octx]
    create_action_adhoc_gating [where rt = rt and s = s and raw = raw and b = b
      and bargs = bargs]
  by blast

theorem create_action_context_gating_witness:
  "get_action_class rt_py2 db_demo
     (get_full_action_name (fst (get_task_spec rt_py2 (task_spec task_echo)))) =
     Some construct_echo \<and>
   init_argspec construct_echo = Inr [''self'', ''output''] \<and>
   ''action_context'' \<notin> set [''self'', ''output''] \<and>
   fst (create_action rt_py2 \<lparr>registry = db_demo, task = task_echo\<rparr>) =
     Inr (Action construct_echo [(''output'', PStr ''hi'')]) \<and>
   get_action_class rt_py2 db_demo
     (get_full_action_name (fst (get_task_spec rt_py2 (task_spec task_http)))) =
     Some construct_mistral_http \<and>
   init_argspec construct_mistral_http = Inr [''self'', ''action_context'', ''url''] \<and>
   ''action_context'' \<in> set [''self'', ''action_context'', ''url''] \<and>
   fst (create_action rt_py2 \<lparr>registry = db_demo, task = task_http\<rparr>) =
     Inr (Action construct_mistral_http
            [(''url'', PStr ''http://localhost''),
             (''action_context'',
              PDict [(''workbook_name'', PStr ''wb''), (''execution_id'', PStr ''e1''),
                     (''task_id'', PStr ''t1''), (''task_name'', PStr ''say''),
                     (''task_tags'', PList [])])]) \<and>
   action_spec task_greet_plain = Some greet_raw \<and>
   fst (get_action_spec rt_py2 greet_raw) = greet_spec \<and>
   get_action_class rt_py2 db_demo (clazz greet_spec) = Some construct_echo \<and>
   fst (create_adhoc_action rt_py2 db_demo task_greet_plain PNone) =
     Inr (Some (AdHocAction PNone construct_echo greet_spec [(''who'', PStr ''Ann'')])) \<and>
   get_action_class rt_py2 db_demo
     (get_full_action_name (fst (get_task_spec rt_py2 (task_spec task_ping)))) = None \<and>
   action_spec task_ping = Some ping_raw \<and>
   get_action_class rt_py2 db_demo (clazz (fst (get_action_spec rt_py2 ping_raw))) =
     Some construct_mistral_http \<and>
   dict_get (in_context task_ping) ''openstack'' = PNone \<and>
   fst (create_action rt_py2 \<lparr>registry = db_demo, task = task_ping\<rparr>) =
     Inr (AdHocAction
            (PDict [(''workbook_name'', PStr ''wb''), (''execution_id'', PStr ''e1''),
                    (''task_id'', PStr ''t1''), (''task_name'', PStr ''say''),
                    (''task_tags'', PList [])])
            construct_mistral_http (fst (get_action_spec rt_py2 ping_raw)) [])"
proof -
  let ?s = "\<lambda>t. \<lparr>registry = db_demo, task = t\<rparr>"
  have n: "get_full_action_name (fst (get_task_spec rt_py2 (task_spec task_echo))) = ''std.echo''"
    "get_full_action_name (fst (get_task_spec rt_py2 (task_spec task_http))) =
       ''std.mistral_http''"
    "get_full_action_name (fst (get_task_spec rt_py2 (task_spec task_ping))) = ''demo.ping''"
    by (simp_all add: rt_py2_def parse_task_demo_def dict_get_def task_echo_def task_http_def
          task_ping_def)
  have look: "get_action_class rt_py2 db_demo ''std.echo'' = Some construct_echo"
    "get_action_class rt_py2 db_demo ''std.mistral_http'' = Some construct_mistral_http"
    "get_action_class rt_py2 db_demo ''demo.ping'' = None"
    by (simp_all add: get_action_class_def get_action_db_def db_api_load_action_def
          rt_py2_def construct_demo_def construct_echo_def construct_mistral_http_def
          db_demo_def echo_record_def mistral_http_record_def user_record_def)
  have args: "init_argspec construct_echo = Inr [''self'', ''output'']"
    "init_argspec construct_mistral_http = Inr [''self'', ''action_context'', ''url'']"
    by (simp_all add: construct_echo_def construct_mistral_http_def construct_demo_def)
  have raises: "init_raises construct_echo = never_raises"
    "init_raises construct_mistral_http = never_raises"
    by (simp_all add: construct_echo_def construct_mistral_http_def construct_demo_def)
  have specs: "action_spec task_greet_plain = Some greet_raw" "greet_raw \<noteq> []"
    "fst (get_action_spec rt_py2 greet_raw) = greet_spec" "clazz greet_spec = ''std.echo''"
    "action_spec task_ping = Some ping_raw" "ping_raw \<noteq> []"
    "clazz (fst (get_action_spec rt_py2 ping_raw)) = ''std.mistral_http''"
    by (simp_all add: task_greet_plain_def task_greet_def task_ping_def task_echo_def
          greet_raw_def greet_spec_def ping_raw_def rt_py2_def parse_action_demo_def dict_get_def)
  have params: "parameters task_echo = Some [(''output'', PStr ''hi'')]"
    "parameters task_http = Some [(''url'', PStr ''http://localhost'')]"
    "parameters task_greet_plain = Some [(''who'', PStr ''Ann'')]"
    "parameters task_ping = None"
    "dict_get (in_context task_echo) ''openstack'' = PNone"
    "dict_get (in_context task_http) ''openstack'' = PNone"
    "dict_get (in_context task_ping) ''openstack'' = PNone"
    by (simp_all add: task_echo_def task_http_def task_greet_plain_def task_greet_def
          task_ping_def dict_get_def)
  have ctx: "get_action_context task_http PNone =
       [(''workbook_name'', PStr ''wb''), (''execution_id'', PStr ''e1''),
        (''task_id'', PStr ''t1''), (''task_name'', PStr ''say''), (''task_tags'', PList [])]"
    "get_action_context task_ping PNone =
       [(''workbook_name'', PStr ''wb''), (''execution_id'', PStr ''e1''),
        (''task_id'', PStr ''t1''), (''task_name'', PStr ''say''), (''task_tags'', PList [])]"
    by (simp_all add: get_action_context_def task_http_def task_ping_def task_echo_def)
  note g_echo = create_action_context_gating [where rt = rt_py2 and s = "?s task_echo"
      and c = construct_echo and args = "[''self'', ''output'']", THEN conjunct1, simplified]
  note g_http = create_action_context_gating [where rt = rt_py2 and s = "?s task_http"
      and c = construct_mistral_http and args = "[''self'', ''action_context'', ''url'']",
      THEN conjunct1, simplified]
  note g_plain = create_action_context_gating [where rt = rt_py2 and d = db_demo
      and t = task_greet_plain and raw = greet_raw and b = construct_echo
      and bargs = "[''self'', ''output'']" and octx = PNone,
      THEN conjunct2, THEN conjunct1, simplified]
  note g_ping = create_action_context_gating [where rt = rt_py2 and s = "?s task_ping"
      and raw = ping_raw and b = construct_mistral_http
      and bargs = "[''self'', ''action_context'', ''url'']",
      THEN conjunct2, THEN conjunct2, simplified]
  have echo: "fst (create_action rt_py2 (?s task_echo)) =
                Inr (Action construct_echo [(''output'', PStr ''hi'')])"
    using g_echo n look args raises params
    by (simp add: instantiate_def never_raises_def params_or_empty_def)
  have http: "fst (create_action rt_py2 (?s task_http)) =
     Inr (Action construct_mistral_http
            [(''url'', PStr ''http://localhost''),
             (''action_context'',
              PDict [(''workbook_name'', PStr ''wb''), (''execution_id'', PStr ''e1''),
                     (''task_id'', PStr ''t1''), (''task_name'', PStr ''say''),
                     (''task_tags'', PList [])])])"
    using g_http n look args raises params ctx
    by (simp add: instantiate_def never_raises_def params_or_empty_def)
  have plain: "fst (create_adhoc_action rt_py2 db_demo task_greet_plain PNone) =
     Inr (Some (AdHocAction PNone construct_echo greet_spec [(''who'', PStr ''Ann'')]))"
    using g_plain look args specs params by (simp add: params_or_empty_def)
  have ping: "fst (create_action rt_py2 (?s task_ping)) =
     Inr (AdHocAction
            (PDict [(''workbook_name'', PStr ''wb''), (''execution_id'', PStr ''e1''),
                    (''task_id'', PStr ''t1''), (''task_name'', PStr ''say''),
                    (''task_tags'', PList [])])
            construct_mistral_http (fst (get_action_spec rt_py2 ping_raw)) [])"
    using g_ping n look args specs params ctx by (simp add: params_or_empty_def)
  show ?thesis
    using n look args specs params echo http plain ping by simp
qed

section \<open>Ad-hoc parameter and result conversion\<close>

text \<open>
  C5. For every ad-hoc spec and call parameters: when \<open>base_parameters\<close> is empty (no
  mapping or the empty one, tested by truthiness) \<open>convert_adhoc_action_params\<close> returns
  the empty dict, whatever the call parameters; otherwise it returns the evaluation of
  \<open>base_parameters\<close> with the call parameters as context.
\<close>

theorem convert_adhoc_action_params_spec:
  assumes "get_action wb action_name = Some sp"
  shows "(\<not> truthy (base_parameters sp) \<longrightarrow>
            convert_adhoc_action_params ev wb action_name params = Inr (PDict [])) \<and>
         (truthy (base_parameters sp) \<longrightarrow>
            convert_adhoc_action_params ev wb action_name params =
              Inr (ev (base_parameters sp) params))"
  using assms by (simp add: convert_adhoc_action_params_def)

theorem convert_adhoc_action_params_spec_witness:
  "get_action wb_demo ''demo.empty'' = Some empty_spec \<and>
   \<not> truthy (base_parameters empty_spec) \<and>
   convert_adhoc_action_params (evaluate_recursively plain_leaf) wb_demo ''demo.empty''
     (PDict [(''x'', PInt 1)]) = Inr (PDict []) \<and>
   get_action wb_demo ''demo.greet'' = Some greet_spec \<and>
   truthy (base_parameters greet_spec) \<and>
   convert_adhoc_action_params (evaluate_recursively plain_leaf) wb_demo ''demo.greet''
     (PDict [(''who'', PStr ''Ann'')]) =
     Inr (PDict [(''output'', PStr ''<% $.who %> says hi'')])"
proof -
  have e: "get_action wb_demo ''demo.empty'' = Some empty_spec"
    by (simp add: get_action_def wb_demo_def)
  have g: "get_action wb_demo ''demo.greet'' = Some greet_spec"
    by (simp add: get_action_def wb_demo_def)
  show ?thesis
    using e g
      convert_adhoc_action_params_spec [OF e, of "evaluate_recursively plain_leaf"
        "PDict [(''x'', PInt 1)]"]
      convert_adhoc_action_params_spec [OF g, of "evaluate_recursively plain_leaf"
        "PDict [(''who'', PStr ''Ann'')]"]
    by (simp add: empty_spec_def greet_spec_def plain_leaf_def)
qed

text \<open>
  C6 as stated: with no output transform the result is returned unchanged, otherwise the
  evaluation of the transform is returned. For the spec \<open>demo.empty\<close> the transform is
  given, as the empty dict; its evaluation is the empty dict, and the code returns the
  base result.
\<close>

theorem convert_adhoc_action_result_empty_transform:
  "get_action wb_demo ''demo.empty'' = Some empty_spec \<and>
   output_tree empty_spec \<noteq> PNone \<and>
   convert_adhoc_action_result (evaluate_recursively plain_leaf) wb_demo ''demo.empty''
     (PDict [(''a'', PInt 1)]) = Inr (PDict [(''a'', PInt 1)]) \<and>
   evaluate_recursively plain_leaf (output_tree empty_spec) (PDict [(''a'', PInt 1)]) = PDict [] \<and>
   convert_adhoc_action_result (evaluate_recursively plain_leaf) wb_demo ''demo.empty''
     (PDict [(''a'', PInt 1)]) \<noteq>
   Inr (evaluate_recursively plain_leaf (output_tree empty_spec) (PDict [(''a'', PInt 1)]))"
  by (simp add: convert_adhoc_action_result_def get_action_def wb_demo_def empty_spec_def)

text \<open>
  C6, amended. For every ad-hoc spec and base result: when the output transform is
  absent or empty (falsy) \<open>convert_adhoc_action_result\<close> returns the base result
  unchanged; otherwise it returns the evaluation of the transform with the base result
  as context.
\<close>

theorem convert_adhoc_action_result_spec:
  assumes "get_action wb action_name = Some sp"
  shows "(\<not> truthy (output_tree sp) \<longrightarrow>
            convert_adhoc_action_result ev wb action_name result = Inr result) \<and>
         (truthy (output_tree sp) \<longrightarrow>
            convert_adhoc_action_result ev wb action_name result =
              Inr (ev (output_tree sp) result))"
  using assms by (simp add: convert_adhoc_action_result_def)

theorem convert_adhoc_action_result_spec_witness:
  "get_action wb_demo ''demo.plain'' = Some plain_spec \<and>
   \<not> truthy (output_tree plain_spec) \<and>
   convert_adhoc_action_result (evaluate_recursively plain_leaf) wb_demo ''demo.plain''
     (PDict [(''a'', PInt 1)]) = Inr (PDict [(''a'', PInt 1)]) \<and>
   get_action wb_demo ''demo.greet'' = Some greet_spec \<and>
   truthy (output_tree greet_spec) \<and>
   convert_adhoc_action_result (evaluate_recursively plain_leaf) wb_demo ''demo.greet''
     (PDict [(''a'', PInt 1)]) = Inr (PDict [(''greeting'', PStr ''<% $ %>'')])"
proof -
  have p: "get_action wb_demo ''demo.plain'' = Some plain_spec"
    by (simp add: get_action_def wb_demo_def)
  have g: "get_action wb_demo ''demo.greet'' = Some greet_spec"
    by (simp add: get_action_def wb_demo_def)
  show ?thesis
    using p g
      convert_adhoc_action_result_spec [OF p, of "evaluate_recursively plain_leaf"
        "PDict [(''a'', PInt 1)]"]
      convert_adhoc_action_result_spec [OF g, of "evaluate_recursively plain_leaf"
        "PDict [(''a'', PInt 1)]"]
    by (simp add: plain_spec_def greet_spec_def plain_leaf_def)
qed

text \<open>
  C10. When the output transform of the ad-hoc spec is present but falsy (the empty
  dict, the empty string), \<open>convert_adhoc_action_result\<close> returns the base result
  unchanged, and the evaluator has no part in it: the result is the same for every
  evaluator.
\<close>

theorem convert_adhoc_action_result_falsy_transform:
  assumes "get_action wb action_name = Some sp"
    and "output_tree sp \<noteq> PNone"
    and "\<not> truthy (output_tree sp)"
  shows "\<forall>ev. convert_adhoc_action_result ev wb action_name result = Inr result"
  using assms by (simp add: convert_adhoc_action_result_def)

theorem convert_adhoc_action_result_falsy_transform_witness:
  "get_action wb_demo ''demo.empty'' = Some empty_spec \<and>
   output_tree empty_spec = PDict [] \<and>
   (\<forall>ev. convert_adhoc_action_result ev wb_demo ''demo.empty'' (PDict [(''a'', PInt 1)]) =
      Inr (PDict [(''a'', PInt 1)])) \<and>
   get_action [(''demo.blank'', blank_spec)] ''demo.blank'' = Some blank_spec \<and>
   output_tree blank_spec = PStr '''' \<and>
   (\<forall>ev. convert_adhoc_action_result ev [(''demo.blank'', blank_spec)] ''demo.blank''
      (PDict [(''a'', PInt 1)]) = Inr (PDict [(''a'', PInt 1)]))"
proof -
  have e: "get_action wb_demo ''demo.empty'' = Some empty_spec"
    by (simp add: get_action_def wb_demo_def)
  have e1: "output_tree empty_spec \<noteq> PNone" by (simp add: empty_spec_def)
  have e2: "\<not> truthy (output_tree empty_spec)" by (simp add: empty_spec_def)
  have b: "get_action [(''demo.blank'', blank_spec)] ''demo.blank'' = Some blank_spec"
    by (simp add: get_action_def)
  have b1: "output_tree blank_spec \<noteq> PNone" by (simp add: blank_spec_def)
  have b2: "\<not> truthy (output_tree blank_spec)" by (simp add: blank_spec_def)
  show ?thesis
    using e b
      convert_adhoc_action_result_falsy_transform [OF e e1 e2, of "PDict [(''a'', PInt 1)]"]
      convert_adhoc_action_result_falsy_transform [OF b b1 b2, of "PDict [(''a'', PInt 1)]"]
    by (simp add: empty_spec_def blank_spec_def)
qed

end
